theory Spec2Isabelle
  imports Complex_Main "HOL-Library.Log_Nat"
begin

section \<open>Numbers, identifiers and time\<close>

text \<open>
  A JavaScript (and MongoDB) Number is an IEEE-754 binary64 value. A finite Number is
  modelled by the rational it denotes, and every arithmetic operation of the source is
  followed by a rounding function \<open>rnd\<close> that the operations take as a parameter:
  \<open>exact\<close> (no rounding) gives exact arithmetic, \<open>binary64\<close> rounds to the nearest
  value with a 53-bit significand, ties to even (overflow, subnormals and NaN are out of
  the range of the quantities handled here and are not modelled).
  Dates are integers (milliseconds since the epoch), ObjectIds are strings.
\<close>

type_synonym number = rat
type_synonym date = int
type_synonym objectId = string

definition exact :: "rat \<Rightarrow> rat" where
  "exact x = x"

definition pow2 :: "int \<Rightarrow> rat" where
  "pow2 k = (if 0 \<le> k then 2 ^ nat k else 1 / 2 ^ nat (- k))"

definition ilog2 :: "rat \<Rightarrow> int" where
  \<comment> \<open>the binary exponent of a positive rational: the floor of its base-2 logarithm\<close>
  "ilog2 a = (if 1 \<le> a then bitlen \<lfloor>a\<rfloor> - 1 else - bitlen (\<lceil>1 / a\<rceil> - 1))"

definition round_half_even :: "rat \<Rightarrow> int" where
  "round_half_even x =
     (let f = \<lfloor>x\<rfloor>; r = x - of_int f
      in if r < 1 / 2 then f else if 1 / 2 < r then f + 1 else if even f then f else f + 1)"

definition binary64 :: "rat \<Rightarrow> rat" where
  "binary64 x =
     (if x = 0 then 0
      else let s = 52 - ilog2 \<bar>x\<bar>
           in sgn x * (of_int (round_half_even (\<bar>x\<bar> * pow2 s)) * pow2 (- s)))"

definition Math_round :: "number \<Rightarrow> int" where
  \<comment> \<open>\<open>Math.round\<close>: the nearest integer, a tie going towards plus infinity\<close>
  "Math_round x = \<lfloor>x + 1 / 2\<rfloor>"

section \<open>The user model (models/User.js)\<close>

datatype role = User | Admin | Manager

datatype json = JNull | JBool bool | JNum rat | JStr string | JDate date
  | JObj "(string \<times> json) list"

text \<open>
  A user document. The password path is declared \<open>select: false\<close>, so a document
  read without it has no password: \<open>None\<close>. The nested preferences, profile and
  statistics objects are carried as JSON values, and \<open>user_version\<close> is the version
  key \<open>__v\<close>.
\<close>

record user =
  user_id :: objectId
  name :: string
  email :: string
  password :: "string option"
  avatar :: "string option"
  role :: role
  isVerified :: bool
  isActive :: bool
  lastLogin :: "date option"
  loginAttempts :: int
  lockUntil :: "date option"
  preferences :: json
  profile :: json
  statistics :: json
  userCreatedAt :: date
  userUpdatedAt :: date
  user_version :: nat

fun role_name :: "role \<Rightarrow> string" where
  "role_name User = ''user''"
| "role_name Admin = ''admin''"
| "role_name Manager = ''manager''"

definition isLocked :: "date \<Rightarrow> user \<Rightarrow> bool" where
  \<comment> \<open>\<open>!!(this.lockUntil && this.lockUntil > Date.now())\<close>\<close>
  "isLocked now u = (case lockUntil u of None \<Rightarrow> False | Some l \<Rightarrow> now < l)"

subsection \<open>Queries\<close>

text \<open>
  The collection of users is a list of documents. The query hook of the user schema adds
  \<open>isActive: true\<close> to every find (no caller sets \<open>includeInactive\<close>), and a
  find returns a document without its password. The same find serves \<open>populate\<close>,
  which replaces a reference to a user by the document found, or by null.
\<close>

definition User_findById :: "user list \<Rightarrow> objectId \<Rightarrow> user option" where
  "User_findById users uid =
     map_option (\<lambda>u. u\<lparr>password := None\<rparr>)
       (find (\<lambda>u. user_id u = uid \<and> isActive u) users)"

definition populate :: "user list \<Rightarrow> objectId option \<Rightarrow> user option" where
  "populate users ref = (case ref of None \<Rightarrow> None | Some r \<Rightarrow> User_findById users r)"

subsection \<open>Saving: the password hook\<close>

text \<open>
  \<open>bcrypt.hash(password, 12)\<close> is a parameter \<open>hash\<close> (the salt it draws is part of
  the parameter), and so is \<open>isModified('password')\<close>, a flag of the document. The second
  save hook sets a property that is no path of the schema and is not part of a document.
\<close>

definition pre_save_user :: "(string \<Rightarrow> string) \<Rightarrow> bool \<Rightarrow> user \<Rightarrow> user" where
  "pre_save_user hash password_modified u =
     (if \<not> password_modified then u
      else u\<lparr>password := map_option hash (password u)\<rparr>)"

subsection \<open>Serialisation\<close>

text \<open>
  \<open>toJSON\<close> and \<open>toObject\<close> have \<open>virtuals: true\<close> and the same transform: the
  paths of the document and its virtuals (\<open>fullName\<close>, \<open>isLocked\<close>, and the \<open>id\<close> that
  every schema has) are copied into \<open>ret\<close>, then the transform deletes three keys.
\<close>

definition json_opt :: "('a \<Rightarrow> json) \<Rightarrow> 'a option \<Rightarrow> json" where
  "json_opt f x = (case x of None \<Rightarrow> JNull | Some v \<Rightarrow> f v)"

definition delete_key :: "string \<Rightarrow> (string \<times> json) list \<Rightarrow> (string \<times> json) list" where
  "delete_key k ret = filter (\<lambda>kv. fst kv \<noteq> k) ret"

definition user_paths :: "user \<Rightarrow> (string \<times> json) list" where
  "user_paths u =
     [(''_id'', JStr (user_id u)), (''name'', JStr (name u)), (''email'', JStr (email u))]
     @ (case password u of None \<Rightarrow> [] | Some h \<Rightarrow> [(''password'', JStr h)])
     @ [(''avatar'', json_opt JStr (avatar u)), (''role'', JStr (role_name (role u))),
        (''isVerified'', JBool (isVerified u)), (''isActive'', JBool (isActive u)),
        (''lastLogin'', json_opt JDate (lastLogin u)),
        (''loginAttempts'', JNum (of_int (loginAttempts u))),
        (''lockUntil'', json_opt JDate (lockUntil u)),
        (''preferences'', preferences u), (''profile'', profile u),
        (''statistics'', statistics u),
        (''createdAt'', JDate (userCreatedAt u)), (''updatedAt'', JDate (userUpdatedAt u)),
        (''__v'', JNum (of_nat (user_version u)))]"

definition user_virtuals :: "date \<Rightarrow> user \<Rightarrow> (string \<times> json) list" where
  "user_virtuals now u =
     [(''fullName'', JStr (name u)), (''isLocked'', JBool (isLocked now u)),
      (''id'', JStr (user_id u))]"

definition transform :: "(string \<times> json) list \<Rightarrow> (string \<times> json) list" where
  "transform ret = delete_key ''lockUntil'' (delete_key ''loginAttempts'' (delete_key ''password'' ret))"

definition toJSON :: "date \<Rightarrow> user \<Rightarrow> (string \<times> json) list" where
  "toJSON now u = transform (user_paths u @ user_virtuals now u)"

subsection \<open>Login attempts\<close>

text \<open>
  \<open>bcrypt.compare\<close> is the parameter \<open>cmp\<close>; it rejects when the document has no
  password. The clock readings of one call are taken at one instant \<open>now\<close>. Each method
  returns the document as \<open>save\<close> leaves it (\<open>validateBeforeSave: false\<close>: no validator
  runs, and the password is not modified, so the password hook does nothing).
\<close>

datatype login_error = AccountLocked | IllegalArguments

definition handleFailedLogin :: "date \<Rightarrow> user \<Rightarrow> user" where
  "handleFailedLogin now u =
     (let u1 = u\<lparr>loginAttempts := loginAttempts u + 1\<rparr>
      in if 5 \<le> loginAttempts u1 \<and> \<not> isLocked now u1
         then u1\<lparr>lockUntil := Some (now + 30 * 60 * 1000)\<rparr>
         else u1)"

definition resetLoginAttempts :: "user \<Rightarrow> user" where
  "resetLoginAttempts u = u\<lparr>loginAttempts := 0, lockUntil := None\<rparr>"

definition comparePassword ::
  "(string \<Rightarrow> string \<Rightarrow> bool) \<Rightarrow> date \<Rightarrow> string \<Rightarrow> user \<Rightarrow> login_error + (bool \<times> user)" where
  "comparePassword cmp now candidatePassword u =
     (if isLocked now u then Inl AccountLocked
      else case password u of
        None \<Rightarrow> Inl IllegalArguments
      | Some h \<Rightarrow>
          if \<not> cmp candidatePassword h then Inr (False, handleFailedLogin now u)
          else let u1 = (if 0 < loginAttempts u \<or> lockUntil u \<noteq> None
                         then resetLoginAttempts u else u)
               in Inr (True, u1\<lparr>lastLogin := Some now\<rparr>))"

text \<open>
  A sequence of calls on one account, each at its own time with its own candidate
  password; a call that throws leaves the document as it was.
\<close>

fun login_attempts ::
  "(string \<Rightarrow> string \<Rightarrow> bool) \<Rightarrow> (date \<times> string) list \<Rightarrow> user
     \<Rightarrow> (login_error + bool) list \<times> user" where
  "login_attempts cmp [] u = ([], u)"
| "login_attempts cmp ((now, c) # as) u =
     (case comparePassword cmp now c u of
        Inl e \<Rightarrow> (let (rs, u') = login_attempts cmp as u in (Inl e # rs, u'))
      | Inr (ok, u1) \<Rightarrow> (let (rs, u') = login_attempts cmp as u1 in (Inr ok # rs, u')))"

section \<open>The authorization gate (middleware/auth.js)\<close>

text \<open>
  \<open>jwt.verify(token, secret)\<close> is the parameter \<open>verify\<close>: it returns the \<open>userId\<close> of
  the decoded payload or throws an error with one of the three names of the library.
  \<open>User.findById\<close> casts that \<open>userId\<close> to an ObjectId and throws a CastError when
  it cannot; whether it can is the parameter \<open>castable\<close>. Every error thrown inside the
  \<open>try\<close> reaches the \<open>catch\<close>, which answers 401 for two names and 500 for any other.
\<close>

datatype jwt_error = JsonWebTokenError | TokenExpiredError | NotBeforeError

datatype 'a outcome = Respond nat string | Next 'a

record req_user =
  req_id :: objectId
  req_name :: string
  req_email :: string
  req_role :: role
  req_isVerified :: bool

definition auth ::
  "(string \<Rightarrow> jwt_error + string) \<Rightarrow> (string \<Rightarrow> bool) \<Rightarrow> user list \<Rightarrow> string option
     \<Rightarrow> req_user outcome" where
  "auth verify castable users authHeader =
     (case authHeader of
        None \<Rightarrow> Respond 401 ''No token provided, authorization denied''
      | Some h \<Rightarrow>
          (if take 7 h \<noteq> ''Bearer ''
           then Respond 401 ''No token provided, authorization denied''
           else let token = drop 7 h in
             if token = [] then Respond 401 ''No token, authorization denied''
             else (case verify token of
                Inl JsonWebTokenError \<Rightarrow> Respond 401 ''Invalid token''
              | Inl TokenExpiredError \<Rightarrow> Respond 401 ''Token expired''
              | Inl NotBeforeError \<Rightarrow> Respond 500 ''Server error in authentication''
              | Inr userId \<Rightarrow>
                  if \<not> castable userId then Respond 500 ''Server error in authentication''
                  else (case User_findById users userId of
                     None \<Rightarrow> Respond 401 ''Token is not valid - user not found''
                   | Some u \<Rightarrow>
                       Next \<lparr>req_id = user_id u, req_name = name u, req_email = email u,
                              req_role = role u, req_isVerified = isVerified u\<rparr>))))"

section \<open>The task model (models/Task.js)\<close>

datatype status = Pending | InProgress | Completed | Cancelled | OnHold

datatype priority = Low | Medium | High | Urgent

fun status_name :: "status \<Rightarrow> string" where
  "status_name Pending = ''pending''"
| "status_name InProgress = ''in-progress''"
| "status_name Completed = ''completed''"
| "status_name Cancelled = ''cancelled''"
| "status_name OnHold = ''on-hold''"

fun priority_name :: "priority \<Rightarrow> string" where
  "priority_name Low = ''low''"
| "priority_name Medium = ''medium''"
| "priority_name High = ''high''"
| "priority_name Urgent = ''urgent''"

record timeLog =
  startTime :: date
  endTime :: date
  duration :: number
  loggedBy :: objectId

text \<open>
  The fields of a task document that the operations below read or write. A missing or
  null date is \<open>None\<close>.
\<close>

record task =
  task_id :: objectId
  title :: string
  status :: status
  priority :: priority
  dueDate :: "date option"
  assignedTo :: "objectId option"
  createdBy :: objectId
  estimatedHours :: number
  actualHours :: number
  completedAt :: "date option"
  timeLogs :: "timeLog list"
  isArchived :: bool
  archivedAt :: "date option"
  createdAt :: date

subsection \<open>Virtuals\<close>

definition isOverdue :: "date \<Rightarrow> task \<Rightarrow> bool" where
  "isOverdue now t =
     (if dueDate t = None \<or> status t = Completed \<or> status t = Cancelled then False
      else the (dueDate t) < now)"

definition timeSpent :: "(rat \<Rightarrow> rat) \<Rightarrow> task \<Rightarrow> number" where
  "timeSpent rnd t = foldl (\<lambda>total log. rnd (total + duration log)) 0 (timeLogs t)"

fun statusProgress :: "status \<Rightarrow> int" where
  "statusProgress Pending = 0"
| "statusProgress InProgress = 50"
| "statusProgress OnHold = 25"
| "statusProgress Completed = 100"
| "statusProgress Cancelled = 0"

definition progress :: "(rat \<Rightarrow> rat) \<Rightarrow> task \<Rightarrow> int" where
  "progress rnd t =
     (if status t = Completed then 100
      else if status t = Cancelled then 0
      else if 0 < estimatedHours t \<and> 0 < actualHours t
        then min (Math_round (rnd (rnd (actualHours t / estimatedHours t) * 100))) 100
      else statusProgress (status t))"

subsection \<open>Saving a task\<close>

text \<open>
  The first save hook of the schema. A Date object is truthy whatever its value, so
  \<open>!this.completedAt\<close> tests for a missing date. The second save hook increments a
  counter of the creator's user document and leaves the task as it is.
\<close>

definition pre_save :: "date \<Rightarrow> task \<Rightarrow> task" where
  "pre_save now t =
     (let t1 = (if status t = Completed \<and> completedAt t = None
                then t\<lparr>completedAt := Some now\<rparr> else t);
          t2 = (if status t1 \<noteq> Completed \<and> completedAt t1 \<noteq> None
                then t1\<lparr>completedAt := None\<rparr> else t1)
      in if isArchived t2 \<and> archivedAt t2 = None
         then t2\<lparr>archivedAt := Some now\<rparr> else t2)"

datatype save_error = ValidationError "string list"

text \<open>
  \<open>save\<close> validates the document before the save hooks run, the paths it loaded as well
  as the ones that were set, and throws one error that holds the message of every
  validator that failed. The validators are those of the paths of the record \<open>task\<close>,
  in the order of the schema; the two on references look the user up among the users.
\<close>

definition active_user :: "user list \<Rightarrow> objectId \<Rightarrow> bool" where
  \<comment> \<open>\<open>!!user && user.isActive\<close> for the user that \<open>User.findById\<close> returns\<close>
  "active_user users userId =
     (case User_findById users userId of None \<Rightarrow> False | Some u \<Rightarrow> isActive u)"

definition validation_errors :: "user list \<Rightarrow> date \<Rightarrow> task \<Rightarrow> string list" where
  "validation_errors users now t =
     (if title t = [] then [''Task title is required'']
      else if 100 < length (title t) then [''Title cannot exceed 100 characters'']
      else [])
     @ (case dueDate t of None \<Rightarrow> []
        | Some d \<Rightarrow> if now < d then [] else [''Due date must be in the future''])
     @ (case assignedTo t of None \<Rightarrow> []
        | Some a \<Rightarrow> if active_user users a then []
                    else [''Assigned user must be an active user''])
     @ (if active_user users (createdBy t) then [] else [''Creator must be an active user''])
     @ (if estimatedHours t < 0 then [''Estimated hours cannot be negative'']
        else if 1000 < estimatedHours t then [''Estimated hours cannot exceed 1000'']
        else [])
     @ (if actualHours t < 0 then [''Actual hours cannot be negative'']
        else if 1000 < actualHours t then [''Actual hours cannot exceed 1000'']
        else [])
     @ (case completedAt t of None \<Rightarrow> []
        | Some d \<Rightarrow> if d \<le> now then [] else [''Completion date cannot be in the future''])
     @ concat (map (\<lambda>log. if duration log < 1 then [''Duration must be at least 1 minute'']
                          else []) (timeLogs t))"

definition save :: "user list \<Rightarrow> date \<Rightarrow> task \<Rightarrow> save_error + task" where
  "save users now t =
     (case validation_errors users now t of
        [] \<Rightarrow> Inr (pre_save now t)
      | e # es \<Rightarrow> Inl (ValidationError (e # es)))"

definition addTimeLog ::
  "(rat \<Rightarrow> rat) \<Rightarrow> user list \<Rightarrow> date \<Rightarrow> timeLog \<Rightarrow> task \<Rightarrow> save_error + task" where
  "addTimeLog rnd users now timeLogData t =
     (let t1 = t\<lparr>timeLogs := timeLogs t @ [timeLogData]\<rparr>;
          t2 = t1\<lparr>actualHours :=
                 foldl (\<lambda>total log. rnd (total + rnd (duration log / 60))) 0 (timeLogs t1)\<rparr>
      in save users now t2)"

definition archive :: "user list \<Rightarrow> date \<Rightarrow> task \<Rightarrow> save_error + task" where
  "archive users now t = save users now (t\<lparr>isArchived := True, archivedAt := Some now\<rparr>)"

definition unarchive :: "user list \<Rightarrow> date \<Rightarrow> task \<Rightarrow> save_error + task" where
  "unarchive users now t = save users now (t\<lparr>isArchived := False, archivedAt := None\<rparr>)"

subsection \<open>Queries\<close>

text \<open>
  The collection is a list of documents. The query hook registered for \<open>/^find/\<close> adds
  \<open>isArchived: false\<close> to \<open>find\<close>, \<open>findOne\<close> (so \<open>findById\<close>) and
  \<open>findOneAndUpdate\<close> (so \<open>findByIdAndUpdate\<close>) unless the option \<open>includeArchived\<close> is
  set, which no caller sets. It is not registered for \<open>countDocuments\<close> nor for
  \<open>aggregate\<close>, whose names the pattern does not match.
\<close>

definition Task_find :: "(task \<Rightarrow> bool) \<Rightarrow> task list \<Rightarrow> task list" where
  "Task_find filter_doc store = filter (\<lambda>t. filter_doc t \<and> isArchived t = False) store"

definition Task_countDocuments :: "(task \<Rightarrow> bool) \<Rightarrow> task list \<Rightarrow> nat" where
  "Task_countDocuments filter_doc store = length (filter filter_doc store)"

definition Task_findById :: "task list \<Rightarrow> objectId \<Rightarrow> task option" where
  "Task_findById store i = find (\<lambda>t. task_id t = i \<and> isArchived t = False) store"

definition findOverdueTasks :: "date \<Rightarrow> task list \<Rightarrow> task list" where
  "findOverdueTasks now store =
     Task_find (\<lambda>t. (case dueDate t of None \<Rightarrow> False | Some d \<Rightarrow> d < now)
                   \<and> status t \<in> {Pending, InProgress, OnHold}
                   \<and> isArchived t = False) store"

subsection \<open>The statistics of the model: \<open>Task.getTaskStats\<close>\<close>

text \<open>
  The aggregation pipeline, stage by stage. \<open>$group\<close> emits one document for each value
  of \<open>_id\<close> among its input documents: with \<open>_id: null\<close> that is one document when there
  is an input document and none when there is none, which is why the method ends with
  \<open>stats.length > 0 ? stats[0] : null\<close>. In an aggregation expression \<open>$lt\<close> compares
  by the order of BSON types, where a missing field is below every date.
  \<open>$round\<close> rounds a tie to the even neighbour.
\<close>

record group_doc =
  g_totalTasks :: nat
  g_completedTasks :: nat
  g_overdueTasks :: nat
  g_totalEstimatedHours :: number
  g_totalActualHours :: number
  g_tasksByStatus :: "(status \<times> priority) list"

record task_stats =
  totalTasks :: nat
  completedTasks :: nat
  overdueTasks :: nat
  completionRate :: number
  totalEstimatedHours :: number
  totalActualHours :: number
  efficiency :: number
  statusBreakdown :: "(string \<times> nat) list"
  priorityBreakdown :: "(string \<times> nat) list"

definition mongo_round :: "(rat \<Rightarrow> rat) \<Rightarrow> number \<Rightarrow> nat \<Rightarrow> number" where
  "mongo_round rnd x place = rnd (of_int (round_half_even (x * 10 ^ place)) / 10 ^ place)"

definition matchStage :: "objectId option \<Rightarrow> task \<Rightarrow> bool" where
  "matchStage userId t =
     (isArchived t = False
      \<and> (case userId of None \<Rightarrow> True
          | Some uid \<Rightarrow> createdBy t = uid \<or> assignedTo t = Some uid))"

definition group_stage :: "(rat \<Rightarrow> rat) \<Rightarrow> date \<Rightarrow> task list \<Rightarrow> group_doc list" where
  "group_stage rnd now docs =
     (if docs = [] then []
      else [\<lparr>g_totalTasks = length docs,
             g_completedTasks = length (filter (\<lambda>t. status t = Completed) docs),
             g_overdueTasks =
               length (filter (\<lambda>t. status t \<noteq> Completed \<and> status t \<noteq> Cancelled
                    \<and> (case dueDate t of None \<Rightarrow> True | Some d \<Rightarrow> d < now)) docs),
             g_totalEstimatedHours = foldl (\<lambda>a t. rnd (a + estimatedHours t)) 0 docs,
             g_totalActualHours = foldl (\<lambda>a t. rnd (a + actualHours t)) 0 docs,
             g_tasksByStatus = map (\<lambda>t. (status t, priority t)) docs\<rparr>])"

definition project_stage :: "(rat \<Rightarrow> rat) \<Rightarrow> group_doc \<Rightarrow> task_stats" where
  "project_stage rnd g =
     \<lparr>totalTasks = g_totalTasks g,
      completedTasks = g_completedTasks g,
      overdueTasks = g_overdueTasks g,
      completionRate =
        (if g_totalTasks g = 0 then 0
         else mongo_round rnd
                (rnd (rnd (of_nat (g_completedTasks g) / of_nat (g_totalTasks g)) * 100)) 2),
      totalEstimatedHours = g_totalEstimatedHours g,
      totalActualHours = g_totalActualHours g,
      efficiency =
        (if g_totalEstimatedHours g = 0 then 0
         else mongo_round rnd
                (rnd (rnd (g_totalActualHours g / g_totalEstimatedHours g) * 100)) 2),
      statusBreakdown =
        map (\<lambda>s. (status_name s, length (filter (\<lambda>x. fst x = s) (g_tasksByStatus g))))
          [Pending, InProgress, Completed, Cancelled, OnHold],
      priorityBreakdown =
        map (\<lambda>p. (priority_name p, length (filter (\<lambda>x. snd x = p) (g_tasksByStatus g))))
          [Low, Medium, High, Urgent]\<rparr>"

definition Task_getTaskStats ::
  "(rat \<Rightarrow> rat) \<Rightarrow> date \<Rightarrow> task list \<Rightarrow> objectId option \<Rightarrow> task_stats option" where
  "Task_getTaskStats rnd now store userId =
     (let stats = map (project_stage rnd)
                    (group_stage rnd now (filter (matchStage userId) store))
      in if 0 < length stats then Some (hd stats) else None)"

section \<open>The task controller (controllers/taskController.js)\<close>

subsection \<open>\<open>getTasks\<close>\<close>

text \<open>
  The query parameters \<open>page\<close> and \<open>limit\<close> are natural numbers (1 and 10 when the
  request has none). A limit of 0 is no limit, and the store rejects a negative skip, which
  the handler answers with 500.
  \<open>Math.ceil(total / limit)\<close> is not a number when the limit is 0: \<open>None\<close>.
\<close>

record tasks_response =
  tasks :: "task list"
  pg_currentPage :: nat
  pg_totalPages :: "nat option"
  pg_totalTasks :: nat

definition query_filter :: "objectId \<Rightarrow> string option \<Rightarrow> string option \<Rightarrow> task \<Rightarrow> bool" where
  "query_filter uid status_q priority_q t =
     ((createdBy t = uid \<or> assignedTo t = Some uid)
      \<and> (case status_q of None \<Rightarrow> True
          | Some s \<Rightarrow> if s \<noteq> [] \<and> s \<noteq> ''all'' then status_name (status t) = s else True)
      \<and> (case priority_q of None \<Rightarrow> True
          | Some p \<Rightarrow> if p \<noteq> [] \<and> p \<noteq> ''all'' then priority_name (priority t) = p else True))"

definition getTasks ::
  "task list \<Rightarrow> objectId \<Rightarrow> string option \<Rightarrow> string option \<Rightarrow> nat \<Rightarrow> nat
     \<Rightarrow> (nat \<times> string) + tasks_response" where
  "getTasks store uid status_q priority_q page limit =
     (if page = 0 \<and> 0 < limit then Inl (500, ''Server error fetching tasks'')
      else
        let filter_doc = query_filter uid status_q priority_q;
            sorted_docs = sort_key (\<lambda>t. - createdAt t) (Task_find filter_doc store);
            skipped = drop ((page - 1) * limit) sorted_docs;
            total = Task_countDocuments filter_doc store
        in Inr \<lparr>tasks = (if limit = 0 then skipped else take limit skipped),
                pg_currentPage = page,
                pg_totalPages = (if limit = 0 then None else Some ((total + limit - 1) div limit)),
                pg_totalTasks = total\<rparr>)"

text \<open>The tasks of the pages 1 to \<open>n\<close> of a listing, one after the other.\<close>

definition pages_upto ::
  "task list \<Rightarrow> objectId \<Rightarrow> string option \<Rightarrow> string option \<Rightarrow> nat \<Rightarrow> nat \<Rightarrow> task list" where
  "pages_upto store uid status_q priority_q limit n =
     concat (map (\<lambda>page. case getTasks store uid status_q priority_q page limit of
                            Inl e \<Rightarrow> [] | Inr r \<Rightarrow> tasks r) [1..<Suc n])"

subsection \<open>\<open>updateTask\<close>\<close>

text \<open>
  The body of the request is a list of assignments to paths, applied by \<open>$set\<close>.
  \<open>findByIdAndUpdate\<close> is an update of the store: with \<open>runValidators: true\<close> it runs
  the validators of the paths it sets, and it runs no save hook, since the document is
  never saved. The paths kept are the ones of the record \<open>task\<close> that have no setter.

  The handler runs behind the gate, which leaves the ObjectId of the user in
  \<open>req.user.id\<close>. The task it reads comes from a find, whose second query hook populates
  \<open>createdBy\<close> and \<open>assignedTo\<close>: each is a user document, or null when no active user
  has that identifier, and \<open>toString\<close> of null throws. The printed form of a document is
  the parameter \<open>toString\<close>. The permission test compares that string with
  \<open>req.user.id\<close> by \<open>!==\<close>, which converts neither side.
\<close>

datatype js_value = JString string | JObjectId objectId

fun strict_equal :: "js_value \<Rightarrow> js_value \<Rightarrow> bool" where
  \<comment> \<open>\<open>===\<close>: strings by their characters; an object only with itself, and the object
     in \<open>req.user.id\<close> is no value the handler compares it with\<close>
  "strict_equal (JString a) (JString b) = (a = b)"
| "strict_equal a b = False"

datatype field_update =
    SetStatus status
  | SetPriority priority
  | SetDueDate "date option"
  | SetEstimatedHours number
  | SetActualHours number
  | SetCompletedAt "date option"
  | SetIsArchived bool
  | SetArchivedAt "date option"

fun set_field :: "field_update \<Rightarrow> task \<Rightarrow> task" where
  "set_field (SetStatus s) t = t\<lparr>status := s\<rparr>"
| "set_field (SetPriority p) t = t\<lparr>priority := p\<rparr>"
| "set_field (SetDueDate d) t = t\<lparr>dueDate := d\<rparr>"
| "set_field (SetEstimatedHours h) t = t\<lparr>estimatedHours := h\<rparr>"
| "set_field (SetActualHours h) t = t\<lparr>actualHours := h\<rparr>"
| "set_field (SetCompletedAt d) t = t\<lparr>completedAt := d\<rparr>"
| "set_field (SetIsArchived b) t = t\<lparr>isArchived := b\<rparr>"
| "set_field (SetArchivedAt d) t = t\<lparr>archivedAt := d\<rparr>"

fun update_valid :: "date \<Rightarrow> field_update \<Rightarrow> bool" where
  "update_valid now (SetDueDate d) = (case d of None \<Rightarrow> True | Some x \<Rightarrow> now < x)"
| "update_valid now (SetEstimatedHours h) = (0 \<le> h \<and> h \<le> 1000)"
| "update_valid now (SetActualHours h) = (0 \<le> h \<and> h \<le> 1000)"
| "update_valid now (SetCompletedAt d) = (case d of None \<Rightarrow> True | Some x \<Rightarrow> x \<le> now)"
| "update_valid now _ = True"

fun update_first :: "('a \<Rightarrow> bool) \<Rightarrow> ('a \<Rightarrow> 'a) \<Rightarrow> 'a list \<Rightarrow> 'a list" where
  "update_first P f [] = []"
| "update_first P f (x # xs) = (if P x then f x # xs else x # update_first P f xs)"

definition Task_findByIdAndUpdate ::
  "date \<Rightarrow> task list \<Rightarrow> objectId \<Rightarrow> field_update list
     \<Rightarrow> save_error + (task option \<times> task list)" where
  "Task_findByIdAndUpdate now store i body =
     (if \<not> list_all (update_valid now) body then Inl (ValidationError [''Validation failed''])
      else case Task_findById store i of
        None \<Rightarrow> Inr (None, store)
      | Some t \<Rightarrow>
          Inr (Some (fold set_field body t),
               update_first (\<lambda>x. task_id x = i \<and> isArchived x = False)
                 (fold set_field body) store))"

definition updateTask ::
  "(user \<Rightarrow> string) \<Rightarrow> date \<Rightarrow> user list \<Rightarrow> task list \<Rightarrow> req_user \<Rightarrow> objectId
     \<Rightarrow> field_update list \<Rightarrow> (nat \<times> string) + (task option \<times> task list)" where
  "updateTask toString now users store requester i body =
     (case Task_findById store i of
        None \<Rightarrow> Inl (404, ''Task not found'')
      | Some t \<Rightarrow>
          (case populate users (Some (createdBy t)) of
             None \<Rightarrow> Inl (500, ''Server error updating task'')
           | Some creator \<Rightarrow>
               if \<not> strict_equal (JString (toString creator)) (JObjectId (req_id requester))
                  \<and> (populate users (assignedTo t) = None
                       \<or> \<not> strict_equal
                             (JString (toString (the (populate users (assignedTo t)))))
                             (JObjectId (req_id requester)))
               then Inl (403, ''Not authorized to update this task'')
               else (case Task_findByIdAndUpdate now store i body of
                       Inl e \<Rightarrow> Inl (500, ''Server error updating task'')
                     | Inr r \<Rightarrow> Inr r)))"

subsection \<open>\<open>getTaskStats\<close>, the handler of \<open>GET /api/tasks/stats/overview\<close>\<close>

text \<open>
  The aggregation groups the matched documents by status: one group for each status that
  occurs. \<open>formattedStats\<close> is an object, here a map from its keys to its counts.
\<close>

definition stats_match :: "objectId \<Rightarrow> task \<Rightarrow> bool" where
  "stats_match uid t = (createdBy t = uid \<or> assignedTo t = Some uid)"

definition status_groups :: "task list \<Rightarrow> (status \<times> nat) list" where
  "status_groups docs =
     filter (\<lambda>g. 0 < snd g)
       (map (\<lambda>s. (s, length (filter (\<lambda>t. status t = s) docs)))
          [Pending, InProgress, Completed, Cancelled, OnHold])"

definition add_stat :: "(string \<rightharpoonup> nat) \<Rightarrow> status \<times> nat \<Rightarrow> (string \<rightharpoonup> nat)" where
  "add_stat formattedStats stat =
     (let m = formattedStats(status_name (fst stat) \<mapsto> snd stat)
      in m(''total'' \<mapsto> (case m ''total'' of None \<Rightarrow> 0 | Some n \<Rightarrow> n) + snd stat))"

definition getTaskStats :: "date \<Rightarrow> task list \<Rightarrow> objectId \<Rightarrow> (string \<rightharpoonup> nat)" where
  "getTaskStats now store uid =
     (let stats = status_groups (filter (stats_match uid) store);
          formattedStats =
            foldl add_stat
              [''total'' \<mapsto> 0, ''pending'' \<mapsto> 0, ''in-progress'' \<mapsto> 0,
               ''completed'' \<mapsto> 0, ''cancelled'' \<mapsto> 0] stats;
          overdueCount =
            Task_countDocuments
              (\<lambda>t. stats_match uid t
                    \<and> (case dueDate t of None \<Rightarrow> False | Some d \<Rightarrow> d < now)
                    \<and> status t \<in> {Pending, InProgress}) store
      in formattedStats(''overdue'' \<mapsto> overdueCount))"

section \<open>Example documents\<close>

definition example_task :: task where
  "example_task =
     \<lparr>task_id = ''t1'', title = ''Write spec'', status = InProgress, priority = High,
      dueDate = None, assignedTo = None, createdBy = ''u1'', estimatedHours = 10,
      actualHours = 5, completedAt = None, timeLogs = [], isArchived = False,
      archivedAt = None, createdAt = 0\<rparr>"

definition example_user :: user where
  "example_user =
     \<lparr>user_id = ''u1'', name = ''Ada'', email = ''ada@example.com'',
      password = Some ''#Secret1'', avatar = None, role = User, isVerified = True,
      isActive = True, lastLogin = None, loginAttempts = 0, lockUntil = None,
      preferences = JObj [], profile = JObj [], statistics = JObj [],
      userCreatedAt = 0, userUpdatedAt = 0, user_version = 0\<rparr>"

text \<open>A stand-in for bcrypt in the examples: the hash of a password is \<open>#\<close> before it.\<close>

definition example_hash :: "string \<Rightarrow> string" where
  "example_hash p = CHR ''#'' # p"

definition example_cmp :: "string \<Rightarrow> string \<Rightarrow> bool" where
  "example_cmp candidate h = (h = example_hash candidate)"

definition example_log :: "number \<Rightarrow> timeLog" where
  "example_log d = \<lparr>startTime = 0, endTime = 1000, duration = d, loggedBy = ''u1''\<rparr>"

definition archived_task :: task where
  "archived_task =
     example_task\<lparr>task_id := ''t2'', status := Pending, dueDate := Some 500,
       isArchived := True, archivedAt := Some 600\<rparr>"

text \<open>An archived task whose dates are as \<open>archive\<close> leaves them.\<close>

definition filed_task :: task where
  "filed_task = example_task\<lparr>task_id := ''t4'', isArchived := True, archivedAt := Some 600\<rparr>"

definition on_hold_task :: task where
  "on_hold_task = example_task\<lparr>task_id := ''t3'', status := OnHold, dueDate := Some 500\<rparr>"

definition example_verify :: "string \<Rightarrow> jwt_error + string" where
  "example_verify token =
     (if token = ''good'' then Inr ''u1''
      else if token = ''odd'' then Inr ''junk''
      else if token = ''old'' then Inl TokenExpiredError
      else if token = ''early'' then Inl NotBeforeError
      else Inl JsonWebTokenError)"

definition example_castable :: "string \<Rightarrow> bool" where
  "example_castable userId = (userId \<noteq> ''junk'')"

section \<open>Properties\<close>

subsection \<open>Rounding\<close>

lemma bitlen_1: "bitlen 1 = 1"
  by (subst compute_bitlen) simp

lemma bitlen_2: "bitlen 2 = 2"
  by (subst compute_bitlen) (simp add: bitlen_1)

lemma binary64_half: "binary64 (1 / 2) = 1 / 2"
  by (simp add: binary64_def ilog2_def pow2_def round_half_even_def Let_def bitlen_1)

lemma binary64_50: "binary64 50 = 50"
  by code_simp

lemma Math_round_50: "Math_round 50 = 50"
  by (simp add: Math_round_def floor_eq_iff)

subsection \<open>Progress\<close>

text \<open>
  C7. The derived progress of a task is 100 when its status is completed, 0 when it is
  cancelled, otherwise the rounded ratio of actual to estimated hours in percent capped
  at 100 when both hours are positive, and otherwise the default of its status (pending
  0, in-progress 50, on-hold 25); this holds whatever the rounding of the arithmetic is.
  A task with 10 estimated hours, 5 actual hours and status in-progress has progress 50,
  in binary64 arithmetic as in exact arithmetic.
\<close>

theorem progress_by_cases:
  "progress rnd t =
     (if status t = Completed then 100
      else if status t = Cancelled then 0
      else if 0 < estimatedHours t \<and> 0 < actualHours t
        then min (Math_round (rnd (rnd (actualHours t / estimatedHours t) * 100))) 100
      else if status t = Pending then 0
      else if status t = InProgress then 50
      else 25)
   \<and> progress rnd t \<le> 100
   \<and> (estimatedHours t = 10 \<and> actualHours t = 5 \<and> status t = InProgress
        \<longrightarrow> progress binary64 t = 50 \<and> progress exact t = 50)"
  by (cases "status t")
     (simp_all add: progress_def binary64_half binary64_50 exact_def Math_round_50)

theorem progress_by_cases_witness:
  "estimatedHours example_task = 10 \<and> actualHours example_task = 5
   \<and> status example_task = InProgress \<and> progress binary64 example_task = 50"
  using progress_by_cases [of binary64 example_task] by (simp add: example_task_def)

subsection \<open>Account lockout\<close>

lemma locked_rejects:
  "lockUntil u = Some l \<Longrightarrow> now < l \<Longrightarrow> comparePassword cmp now c u = Inl AccountLocked"
  by (simp add: comparePassword_def isLocked_def)

lemma failed_below_limit:
  assumes "lockUntil u = None" "password u = Some h" "\<not> cmp c h" "loginAttempts u + 1 < 5"
  shows "comparePassword cmp now c u = Inr (False, u\<lparr>loginAttempts := loginAttempts u + 1\<rparr>)"
  using assms by (simp add: comparePassword_def isLocked_def handleFailedLogin_def Let_def)

lemma failed_at_limit:
  assumes "lockUntil u = None" "password u = Some h" "\<not> cmp c h" "5 \<le> loginAttempts u + 1"
  shows "comparePassword cmp now c u =
     Inr (False, u\<lparr>loginAttempts := loginAttempts u + 1, lockUntil := Some (now + 1800000)\<rparr>)"
  using assms by (simp add: comparePassword_def isLocked_def handleFailedLogin_def Let_def)

text \<open>
  C2. On an account with no failed attempt and no lock, five consecutive calls of
  \<open>comparePassword\<close> with a wrong password all return false and leave \<open>lockUntil\<close> 30
  minutes after the fifth call; at every time before that instant a further call, with
  whatever password (the right one included), fails with the account-locked error.
\<close>

theorem five_failures_lock_account:
  assumes "loginAttempts u = 0" and "lockUntil u = None" and "password u = Some h"
    and "length as = 5" and "\<forall>a \<in> set as. \<not> cmp (snd a) h"
  shows "fst (login_attempts cmp as u) = replicate 5 (Inr False)
    \<and> lockUntil (snd (login_attempts cmp as u)) = Some (fst (last as) + 30 * 60 * 1000)
    \<and> (\<forall>now c. now < fst (last as) + 30 * 60 * 1000 \<longrightarrow>
          comparePassword cmp now c (snd (login_attempts cmp as u)) = Inl AccountLocked)"
proof -
  from \<open>length as = 5\<close> obtain a1 a2 a3 a4 a5 where as: "as = [a1, a2, a3, a4, a5]"
    by (auto simp: length_Suc_conv numeral_eq_Suc)
  obtain t1 c1 t2 c2 t3 c3 t4 c4 t5 c5 where
    a: "a1 = (t1, c1)" "a2 = (t2, c2)" "a3 = (t3, c3)" "a4 = (t4, c4)" "a5 = (t5, c5)"
    by (metis surj_pair)
  have w: "\<not> cmp c1 h" "\<not> cmp c2 h" "\<not> cmp c3 h" "\<not> cmp c4 h" "\<not> cmp c5 h"
    using assms(5) by (simp_all add: as a)
  have r: "login_attempts cmp as u =
      (replicate 5 (Inr False), u\<lparr>loginAttempts := 5, lockUntil := Some (t5 + 1800000)\<rparr>)"
    using assms(1-3) w
    by (simp add: as a failed_below_limit failed_at_limit numeral_eq_Suc)
  show ?thesis
    unfolding r by (simp add: as a locked_rejects)
qed

theorem five_failures_lock_account_witness:
  "loginAttempts example_user = 0 \<and> lockUntil example_user = None
   \<and> password example_user = Some ''#Secret1''
   \<and> example_cmp ''Secret1'' ''#Secret1''
   \<and> \<not> example_cmp ''a'' ''#Secret1'' \<and> \<not> example_cmp ''b'' ''#Secret1''
   \<and> \<not> example_cmp ''c'' ''#Secret1'' \<and> \<not> example_cmp ''d'' ''#Secret1''
   \<and> \<not> example_cmp ''e'' ''#Secret1''
   \<and> lockUntil (snd (login_attempts example_cmp
         [(1000, ''a''), (2000, ''b''), (3000, ''c''), (4000, ''d''), (5000, ''e'')]
         example_user)) = Some 1805000
   \<and> comparePassword example_cmp 6000 ''Secret1''
        (snd (login_attempts example_cmp
           [(1000, ''a''), (2000, ''b''), (3000, ''c''), (4000, ''d''), (5000, ''e'')]
           example_user)) = Inl AccountLocked"
proof -
  have h: "loginAttempts example_user = 0" "lockUntil example_user = None"
    "password example_user = Some ''#Secret1''"
    by (simp_all add: example_user_def)
  have w: "\<forall>a \<in> set [(1000::int, ''a''), (2000, ''b''), (3000, ''c''), (4000, ''d''), (5000, ''e'')].
         \<not> example_cmp (snd a) ''#Secret1''"
    by (simp add: example_cmp_def example_hash_def)
  have c: "example_cmp ''Secret1'' ''#Secret1''"
    by (simp add: example_cmp_def example_hash_def)
  have n: "length [(1000::int, ''a''), (2000, ''b''), (3000, ''c''), (4000, ''d''), (5000, ''e'')] = 5"
    by simp
  from five_failures_lock_account [where cmp = example_cmp, OF h n w] h w c show ?thesis
    by simp
qed

subsection \<open>The authorization gate\<close>

lemma User_findById_None:
  "User_findById users uid = None \<longleftrightarrow> \<not> (\<exists>u \<in> set users. user_id u = uid \<and> isActive u)"
  by (auto simp: User_findById_def find_None_iff)

lemma User_findById_Some:
  "User_findById users uid = Some v \<Longrightarrow>
     \<exists>u \<in> set users. user_id u = uid \<and> isActive u \<and> v = u\<lparr>password := None\<rparr>"
  by (auto simp: User_findById_def find_Some_iff)

text \<open>
  C6, as the claim states it, fails: not every request outside its four cases is passed
  on. A token that the verification rejects as not yet valid is none of missing,
  malformed or expired, and the gate answers 500; and for a token that verifies with a
  \<open>userId\<close> that is no ObjectId, and so references no user, the lookup throws and the
  gate answers 500 where the claim has 401.
\<close>

theorem auth_gate_counterexample:
  "example_verify ''early'' = Inl NotBeforeError
   \<and> auth example_verify example_castable [example_user] (Some ''Bearer early'')
       = Respond 500 ''Server error in authentication''
   \<and> example_verify ''odd'' = Inr ''junk''
   \<and> User_findById [example_user] ''junk'' = None
   \<and> auth example_verify example_castable [example_user] (Some ''Bearer odd'')
       = Respond 500 ''Server error in authentication''"
  by (simp add: auth_def example_verify_def example_castable_def example_user_def
      User_findById_def)

text \<open>
  C6, amended. The answer of the gate to every request is one of three. It is 401 when
  there is no Authorization header, when the header does not start with \<open>Bearer \<close> or
  carries no token, when the verification of the token throws \<open>JsonWebTokenError\<close> (a
  malformed token or a bad signature) or \<open>TokenExpiredError\<close>, and when the token
  verifies with a \<open>userId\<close> that is an ObjectId of no active user (the user is gone or
  inactive). It is 500 when the verification throws an error of another name or the
  \<open>userId\<close> is no ObjectId. In the one case left, a token that verifies with the
  ObjectId of an active user, the gate passes control on with that user's id, name, email
  and role (and verified flag) attached to the request.
\<close>

theorem auth_gate:
  "(authHeader = None
      \<longrightarrow> auth verify castable users authHeader
            = Respond 401 ''No token provided, authorization denied'')
   \<and> (\<forall>h. authHeader = Some h \<and> take 7 h \<noteq> ''Bearer ''
         \<longrightarrow> auth verify castable users authHeader
               = Respond 401 ''No token provided, authorization denied'')
   \<and> (authHeader = Some ''Bearer ''
         \<longrightarrow> auth verify castable users authHeader
               = Respond 401 ''No token, authorization denied'')
   \<and> (\<forall>token. authHeader = Some (''Bearer '' @ token) \<and> token \<noteq> [] \<longrightarrow>
         (verify token = Inl JsonWebTokenError
            \<longrightarrow> auth verify castable users authHeader = Respond 401 ''Invalid token'')
       \<and> (verify token = Inl TokenExpiredError
            \<longrightarrow> auth verify castable users authHeader = Respond 401 ''Token expired'')
       \<and> (verify token = Inl NotBeforeError
            \<longrightarrow> auth verify castable users authHeader
                  = Respond 500 ''Server error in authentication'')
       \<and> (\<forall>userId. verify token = Inr userId \<longrightarrow>
             (if \<not> castable userId
              then auth verify castable users authHeader
                     = Respond 500 ''Server error in authentication''
              else if \<exists>u \<in> set users. user_id u = userId \<and> isActive u
              then \<exists>u \<in> set users. user_id u = userId \<and> isActive u
                     \<and> auth verify castable users authHeader =
                         Next \<lparr>req_id = user_id u, req_name = name u, req_email = email u,
                               req_role = role u, req_isVerified = isVerified u\<rparr>
              else auth verify castable users authHeader
                     = Respond 401 ''Token is not valid - user not found'')))"
proof (intro conjI allI impI)
  assume "authHeader = None"
  then show "auth verify castable users authHeader
      = Respond 401 ''No token provided, authorization denied''"
    by (simp add: auth_def)
next
  fix h assume "authHeader = Some h \<and> take 7 h \<noteq> ''Bearer ''"
  then show "auth verify castable users authHeader
      = Respond 401 ''No token provided, authorization denied''"
    by (auto simp: auth_def)
next
  assume "authHeader = Some ''Bearer ''"
  then show "auth verify castable users authHeader
      = Respond 401 ''No token, authorization denied''"
    by (simp add: auth_def)
next
  fix token assume "authHeader = Some (''Bearer '' @ token) \<and> token \<noteq> []"
    and "verify token = Inl JsonWebTokenError"
  then show "auth verify castable users authHeader = Respond 401 ''Invalid token''"
    by (simp add: auth_def)
next
  fix token assume "authHeader = Some (''Bearer '' @ token) \<and> token \<noteq> []"
    and "verify token = Inl TokenExpiredError"
  then show "auth verify castable users authHeader = Respond 401 ''Token expired''"
    by (simp add: auth_def)
next
  fix token assume "authHeader = Some (''Bearer '' @ token) \<and> token \<noteq> []"
    and "verify token = Inl NotBeforeError"
  then show "auth verify castable users authHeader
      = Respond 500 ''Server error in authentication''"
    by (simp add: auth_def)
next
  fix token userId
  assume h: "authHeader = Some (''Bearer '' @ token) \<and> token \<noteq> []"
    and v: "verify token = Inr userId"
  show "if \<not> castable userId
        then auth verify castable users authHeader
               = Respond 500 ''Server error in authentication''
        else if \<exists>u \<in> set users. user_id u = userId \<and> isActive u
        then \<exists>u \<in> set users. user_id u = userId \<and> isActive u
               \<and> auth verify castable users authHeader =
                   Next \<lparr>req_id = user_id u, req_name = name u, req_email = email u,
                         req_role = role u, req_isVerified = isVerified u\<rparr>
        else auth verify castable users authHeader
               = Respond 401 ''Token is not valid - user not found''"
  proof (cases "castable userId")
    case False
    with h v show ?thesis
      by (simp add: auth_def)
  next
    case True
    show ?thesis
    proof (cases "User_findById users userId")
      case None
      then have ne: "\<not> (\<exists>u \<in> set users. user_id u = userId \<and> isActive u)"
        by (simp add: User_findById_None)
      have "auth verify castable users authHeader
          = Respond 401 ''Token is not valid - user not found''"
        using h v True None by (simp add: auth_def)
      with ne True show ?thesis by simp
    next
      case (Some w)
      from User_findById_Some [OF Some] obtain u where
        u: "u \<in> set users" "user_id u = userId" "isActive u" "w = u\<lparr>password := None\<rparr>"
        by blast
      have "auth verify castable users authHeader =
          Next \<lparr>req_id = user_id u, req_name = name u, req_email = email u,
                req_role = role u, req_isVerified = isVerified u\<rparr>"
        using h v True Some u by (simp add: auth_def)
      with u True show ?thesis by auto
    qed
  qed
qed

theorem auth_gate_witness:
  "auth example_verify example_castable [example_user] None
     = Respond 401 ''No token provided, authorization denied''
   \<and> auth example_verify example_castable [example_user] (Some ''Basic good'')
     = Respond 401 ''No token provided, authorization denied''
   \<and> auth example_verify example_castable [example_user] (Some ''Bearer '')
     = Respond 401 ''No token, authorization denied''
   \<and> auth example_verify example_castable [example_user] (Some ''Bearer bad'')
     = Respond 401 ''Invalid token''
   \<and> auth example_verify example_castable [example_user] (Some ''Bearer old'')
     = Respond 401 ''Token expired''
   \<and> auth example_verify example_castable [example_user] (Some ''Bearer early'')
     = Respond 500 ''Server error in authentication''
   \<and> auth example_verify example_castable [example_user] (Some ''Bearer odd'')
     = Respond 500 ''Server error in authentication''
   \<and> auth example_verify example_castable [example_user\<lparr>isActive := False\<rparr>]
        (Some ''Bearer good'')
     = Respond 401 ''Token is not valid - user not found''
   \<and> auth example_verify example_castable [example_user] (Some ''Bearer good'')
     = Next \<lparr>req_id = ''u1'', req_name = ''Ada'', req_email = ''ada@example.com'',
             req_role = User, req_isVerified = True\<rparr>"
  using
    auth_gate [where authHeader = None and verify = example_verify
      and castable = example_castable and users = "[example_user]"]
    auth_gate [where authHeader = "Some ''Basic good''" and verify = example_verify
      and castable = example_castable and users = "[example_user]"]
    auth_gate [where authHeader = "Some ''Bearer ''" and verify = example_verify
      and castable = example_castable and users = "[example_user]"]
    auth_gate [where authHeader = "Some ''Bearer bad''" and verify = example_verify
      and castable = example_castable and users = "[example_user]"]
    auth_gate [where authHeader = "Some ''Bearer old''" and verify = example_verify
      and castable = example_castable and users = "[example_user]"]
    auth_gate [where authHeader = "Some ''Bearer early''" and verify = example_verify
      and castable = example_castable and users = "[example_user]"]
    auth_gate [where authHeader = "Some ''Bearer odd''" and verify = example_verify
      and castable = example_castable and users = "[example_user]"]
    auth_gate [where authHeader = "Some ''Bearer good''" and verify = example_verify
      and castable = example_castable and users = "[example_user\<lparr>isActive := False\<rparr>]"]
    auth_gate [where authHeader = "Some ''Bearer good''" and verify = example_verify
      and castable = example_castable and users = "[example_user]"]
  by (simp add: auth_def example_verify_def example_castable_def example_user_def
      User_findById_def)

subsection \<open>Listing and its total\<close>

lemma pages_concat:
  assumes "0 < limit"
  shows "concat (map (\<lambda>page. take limit (drop ((page - 1) * limit) xs)) [1..<Suc n])
           = take (n * limit) xs"
proof (induction n)
  case 0
  show ?case by simp
next
  case (Suc n)
  have "Suc n * limit = n * limit + limit"
    by simp
  then have "take (Suc n * limit) xs = take (n * limit) xs @ take limit (drop (n * limit) xs)"
    by (simp only: take_add)
  with Suc show ?case by simp
qed

lemma count_split:
  "length (filter P xs)
     = length (filter (\<lambda>t. P t \<and> isArchived t = False) xs)
       + length (filter (\<lambda>t. P t \<and> isArchived t) xs)"
  by (induction xs) auto

lemma archived_match_counts:
  "\<exists>t \<in> set xs. P t \<and> isArchived t \<Longrightarrow> 0 < length (filter (\<lambda>t. P t \<and> isArchived t) xs)"
  by (induction xs) auto

lemma getTasks_page:
  assumes "0 < limit" "0 < page"
  shows "getTasks store uid sq pq page limit =
     Inr \<lparr>tasks = take limit (drop ((page - 1) * limit)
              (sort_key (\<lambda>t. - createdAt t) (Task_find (query_filter uid sq pq) store))),
          pg_currentPage = page,
          pg_totalPages =
            Some ((Task_countDocuments (query_filter uid sq pq) store + limit - 1) div limit),
          pg_totalTasks = Task_countDocuments (query_filter uid sq pq) store\<rparr>"
  using assms by (simp add: getTasks_def Let_def)

lemma pages_upto_take:
  assumes "0 < limit"
  shows "pages_upto store uid sq pq limit n =
     take (n * limit) (sort_key (\<lambda>t. - createdAt t) (Task_find (query_filter uid sq pq) store))"
proof -
  have m: "map (\<lambda>page. case getTasks store uid sq pq page limit of
                          Inl e \<Rightarrow> [] | Inr r \<Rightarrow> tasks r) [1..<Suc n]
      = map (\<lambda>page. take limit (drop ((page - 1) * limit)
              (sort_key (\<lambda>t. - createdAt t) (Task_find (query_filter uid sq pq) store))))
          [1..<Suc n]"
  proof (rule map_cong [OF refl])
    fix page assume "page \<in> set [1..<Suc n]"
    then have "0 < page" by auto
    with assms
    show "(case getTasks store uid sq pq page limit of Inl e \<Rightarrow> [] | Inr r \<Rightarrow> tasks r)
        = take limit (drop ((page - 1) * limit)
              (sort_key (\<lambda>t. - createdAt t) (Task_find (query_filter uid sq pq) store)))"
      by (simp add: getTasks_page)
  qed
  show ?thesis
    unfolding pages_upto_def m by (rule pages_concat [OF assms])
qed

lemma tasks_sublist:
  assumes "getTasks store uid sq pq page limit = Inr r"
  shows "set (tasks r) \<subseteq> set (Task_find (query_filter uid sq pq) store)"
    and "length (tasks r) \<le> length (Task_find (query_filter uid sq pq) store)"
proof -
  let ?xs = "sort_key (\<lambda>t. - createdAt t) (Task_find (query_filter uid sq pq) store)"
  from assms have t: "tasks r = (if limit = 0 then drop ((page - 1) * limit) ?xs
                    else take limit (drop ((page - 1) * limit) ?xs))"
    by (auto simp: getTasks_def Let_def split: if_splits)
  have "set (tasks r) \<subseteq> set ?xs"
    unfolding t
    using set_take_subset [of limit "drop ((page - 1) * limit) ?xs"]
      set_drop_subset [of "(page - 1) * limit" ?xs]
    by (simp only: split: if_split) blast
  then show "set (tasks r) \<subseteq> set (Task_find (query_filter uid sq pq) store)" by simp
  have "length (tasks r) \<le> length ?xs"
    unfolding t by (auto simp: min_def)
  then show "length (tasks r) \<le> length (Task_find (query_filter uid sq pq) store)" by simp
qed

text \<open>
  C9. Whenever the list operation answers, none of the tasks it returns is archived (and
  each matches the filter), while \<open>totalTasks\<close> is the number of all documents that match
  the filter, archived ones included: the number the find can list plus the number of
  archived matches. The pages 1 to \<open>n\<close> of a listing hold the first \<open>n * limit\<close> tasks the
  find lists; so when an archived task matches the filter, \<open>totalTasks\<close> is strictly above
  the number of tasks of the answer and of any number of pages taken together.
\<close>

theorem listing_total_counts_archived:
  assumes "getTasks store uid sq pq page limit = Inr r"
  shows "(\<forall>t \<in> set (tasks r). \<not> isArchived t \<and> query_filter uid sq pq t)
    \<and> pg_totalTasks r = length (filter (query_filter uid sq pq) store)
    \<and> pg_totalTasks r = length (Task_find (query_filter uid sq pq) store)
          + length (filter (\<lambda>t. query_filter uid sq pq t \<and> isArchived t) store)
    \<and> (0 < limit \<longrightarrow> (\<forall>n. pages_upto store uid sq pq limit n =
          take (n * limit)
            (sort_key (\<lambda>t. - createdAt t) (Task_find (query_filter uid sq pq) store))))
    \<and> ((\<exists>t \<in> set store. query_filter uid sq pq t \<and> isArchived t) \<longrightarrow>
          length (tasks r) < pg_totalTasks r
          \<and> (0 < limit \<longrightarrow>
               (\<forall>n. length (pages_upto store uid sq pq limit n) < pg_totalTasks r)))"
proof -
  let ?P = "query_filter uid sq pq"
  have total: "pg_totalTasks r = length (filter ?P store)"
    using assms by (auto simp: getTasks_def Let_def Task_countDocuments_def split: if_splits)
  have split: "pg_totalTasks r = length (Task_find ?P store)
          + length (filter (\<lambda>t. ?P t \<and> isArchived t) store)"
    unfolding total Task_find_def by (rule count_split)
  have a: "\<forall>t \<in> set (tasks r). \<not> isArchived t \<and> ?P t"
    using tasks_sublist(1) [OF assms] by (auto simp: Task_find_def)
  have p: "0 < limit \<longrightarrow> (\<forall>n. pages_upto store uid sq pq limit n =
          take (n * limit) (sort_key (\<lambda>t. - createdAt t) (Task_find ?P store)))"
    by (simp add: pages_upto_take)
  have gap: "length (tasks r) < pg_totalTasks r
          \<and> (0 < limit \<longrightarrow> (\<forall>n. length (pages_upto store uid sq pq limit n) < pg_totalTasks r))"
    if ex: "\<exists>t \<in> set store. ?P t \<and> isArchived t"
  proof -
    from archived_match_counts [OF ex] split
    have lt: "length (Task_find ?P store) < pg_totalTasks r" by simp
    with tasks_sublist(2) [OF assms] have "length (tasks r) < pg_totalTasks r" by simp
    moreover have "length (pages_upto store uid sq pq limit n) < pg_totalTasks r"
      if "0 < limit" for n
      using lt by (simp add: pages_upto_take [OF that])
    ultimately show ?thesis by simp
  qed
  from a total split p gap show ?thesis by blast
qed

theorem listing_total_counts_archived_witness:
  "getTasks [example_task, archived_task] ''u1'' None None 1 10
     = Inr \<lparr>tasks = [example_task], pg_currentPage = 1, pg_totalPages = Some 1,
            pg_totalTasks = 2\<rparr>
   \<and> query_filter ''u1'' None None archived_task \<and> isArchived archived_task
   \<and> pages_upto [example_task, archived_task] ''u1'' None None 10 3 = [example_task]
   \<and> length (pages_upto [example_task, archived_task] ''u1'' None None 10 3) < 2"
proof -
  have g: "getTasks [example_task, archived_task] ''u1'' None None 1 10
     = Inr \<lparr>tasks = [example_task], pg_currentPage = 1, pg_totalPages = Some 1,
            pg_totalTasks = 2\<rparr>"
    by (simp add: getTasks_def Task_find_def Task_countDocuments_def query_filter_def
        example_task_def archived_task_def)
  have q: "query_filter ''u1'' None None archived_task \<and> isArchived archived_task"
    by (simp add: query_filter_def example_task_def archived_task_def)
  have f: "sort_key (\<lambda>t. - createdAt t)
      (Task_find (query_filter ''u1'' None None) [example_task, archived_task]) = [example_task]"
    by (simp add: Task_find_def query_filter_def example_task_def archived_task_def)
  from listing_total_counts_archived [OF g] g q f show ?thesis
    by simp
qed

subsection \<open>Stored passwords and the serialisation of users\<close>

lemma keys_toJSON:
  "map fst (toJSON now u) =
     [''_id'', ''name'', ''email'', ''avatar'', ''role'', ''isVerified'', ''isActive'',
      ''lastLogin'', ''preferences'', ''profile'', ''statistics'', ''createdAt'', ''updatedAt'',
      ''__v'', ''fullName'', ''isLocked'', ''id'']"
  by (simp add: toJSON_def transform_def delete_key_def user_paths_def user_virtuals_def
      split: option.split)

lemma toJSON_hidden_fields:
  "toJSON now (u\<lparr>password := p, loginAttempts := n, lockUntil := l\<rparr>) = toJSON now u
     \<longleftrightarrow> isLocked now (u\<lparr>lockUntil := l\<rparr>) = isLocked now u"
  by (simp add: toJSON_def transform_def delete_key_def user_paths_def user_virtuals_def
      isLocked_def split: option.split)

text \<open>
  C8, as the claim states it, fails: the serialisation carries the virtual \<open>isLocked\<close>,
  which is computed from \<open>lockUntil\<close>. Two users that differ in \<open>lockUntil\<close> only, one
  locked until time 2000 and one never locked, serialise differently at time 1000.
\<close>

theorem user_json_counterexample:
  "toJSON 1000 (example_user\<lparr>lockUntil := Some 2000\<rparr>) \<noteq> toJSON 1000 example_user"
  by (simp add: toJSON_def transform_def delete_key_def user_paths_def user_virtuals_def
      example_user_def isLocked_def)

text \<open>
  C8, amended. A save that set the password stores the hash of the plaintext, which is not
  the plaintext wherever the hash has no fixed point, and a save that did not set it leaves
  it as it is. Every serialisation of a user has none of the keys \<open>password\<close>,
  \<open>loginAttempts\<close> and \<open>lockUntil\<close>. Two users that differ only in the password and the
  attempt counter serialise identically; two users that differ only in those three fields
  serialise identically exactly when their derived flag \<open>isLocked\<close> is the same at the
  time of the serialisation.
\<close>

theorem user_serialisation:
  "password (pre_save_user hash True u) = map_option hash (password u)
   \<and> (\<forall>plain. password u = Some plain \<and> hash plain \<noteq> plain
         \<longrightarrow> password (pre_save_user hash True u) \<noteq> Some plain)
   \<and> pre_save_user hash False u = u
   \<and> ''password'' \<notin> set (map fst (toJSON now u))
   \<and> ''loginAttempts'' \<notin> set (map fst (toJSON now u))
   \<and> ''lockUntil'' \<notin> set (map fst (toJSON now u))
   \<and> toJSON now (u\<lparr>password := p, loginAttempts := n\<rparr>) = toJSON now u
   \<and> (toJSON now (u\<lparr>password := p, loginAttempts := n, lockUntil := l\<rparr>) = toJSON now u
        \<longleftrightarrow> isLocked now (u\<lparr>lockUntil := l\<rparr>) = isLocked now u)"
proof -
  have 1: "password (pre_save_user hash True u) = map_option hash (password u)"
    and 2: "pre_save_user hash False u = u"
    by (simp_all add: pre_save_user_def)
  have 3: "''password'' \<notin> set (map fst (toJSON now u))"
    "''loginAttempts'' \<notin> set (map fst (toJSON now u))"
    "''lockUntil'' \<notin> set (map fst (toJSON now u))"
    unfolding keys_toJSON by simp_all
  have 4: "toJSON now (u\<lparr>password := p, loginAttempts := n\<rparr>) = toJSON now u"
    using toJSON_hidden_fields [where now = now and u = u and p = p and n = n and l = "lockUntil u"]
    by simp
  from 1 2 3 4 toJSON_hidden_fields [where now = now and u = u and p = p and n = n and l = l]
  show ?thesis
    by auto
qed

theorem user_serialisation_witness:
  "password (pre_save_user example_hash True (example_user\<lparr>password := Some ''Secret1''\<rparr>))
     = Some ''#Secret1''
   \<and> example_hash ''Secret1'' \<noteq> ''Secret1''
   \<and> toJSON 1000 (example_user\<lparr>password := Some ''other'', loginAttempts := 4\<rparr>)
     = toJSON 1000 example_user
   \<and> toJSON 1000 (example_user\<lparr>password := None, loginAttempts := 5, lockUntil := Some 900\<rparr>)
     = toJSON 1000 example_user"
  using user_serialisation [where hash = example_hash
        and u = "example_user\<lparr>password := Some ''Secret1''\<rparr>"]
    user_serialisation [where hash = example_hash and u = example_user and now = 1000
        and p = "Some ''other''" and n = 4]
    user_serialisation [where hash = example_hash and u = example_user and now = 1000
        and p = None and n = 5 and l = "Some 900"]
  by (simp add: example_hash_def example_user_def isLocked_def)

subsection \<open>Completion and archival dates\<close>

text \<open>
  What a save establishes: after the save hook, \<open>completedAt\<close> is set exactly when the
  status is completed, and \<open>archivedAt\<close> is set when the task is archived. The methods
  \<open>archive\<close> and \<open>unarchive\<close> set and clear \<open>archivedAt\<close> themselves, so after them
  \<open>archivedAt\<close> is set exactly when the task is archived.
\<close>

lemma pre_save_invariants:
  "(completedAt (pre_save now t) \<noteq> None \<longleftrightarrow> status (pre_save now t) = Completed)
   \<and> (isArchived (pre_save now t) \<longrightarrow> archivedAt (pre_save now t) \<noteq> None)
   \<and> status (pre_save now t) = status t \<and> isArchived (pre_save now t) = isArchived t"
  by (auto simp: pre_save_def Let_def)

lemma save_result:
  "save users now t = Inr t' \<Longrightarrow> t' = pre_save now t"
  by (auto simp: save_def split: list.splits)

lemma save_invariants:
  assumes "save users now t = Inr t'"
  shows "(completedAt t' \<noteq> None \<longleftrightarrow> status t' = Completed)
    \<and> (isArchived t' \<longrightarrow> archivedAt t' \<noteq> None)"
  using pre_save_invariants [of now t] save_result [OF assms] by simp

lemma pre_save_archival:
  "isArchived (pre_save now t) = isArchived t
   \<and> archivedAt (pre_save now t)
       = (if isArchived t \<and> archivedAt t = None then Some now else archivedAt t)"
  by (simp add: pre_save_def Let_def)

lemma archive_sets_archivedAt:
  assumes "archive users now t = Inr t'"
  shows "isArchived t' \<and> archivedAt t' = Some now"
proof -
  from assms have "t' = pre_save now (t\<lparr>isArchived := True, archivedAt := Some now\<rparr>)"
    unfolding archive_def by (rule save_result)
  then show ?thesis
    by (simp add: pre_save_archival)
qed

lemma unarchive_clears_archivedAt:
  assumes "unarchive users now t = Inr t'"
  shows "\<not> isArchived t' \<and> archivedAt t' = None"
proof -
  from assms have "t' = pre_save now (t\<lparr>isArchived := False, archivedAt := None\<rparr>)"
    unfolding unarchive_def by (rule save_result)
  then show ?thesis
    by (simp add: pre_save_archival)
qed

text \<open>
  The update handler writes no task. Behind the gate the requester's id is an ObjectId,
  which the permission test compares with a string: the test fails for every requester,
  the creator included, and the handler answers 404, 500 or 403.
\<close>

lemma updateTask_never_writes:
  "\<exists>m. updateTask toString now users store requester i body = Inl (404, m)
     \<or> updateTask toString now users store requester i body = Inl (500, m)
     \<or> updateTask toString now users store requester i body = Inl (403, m)"
  by (auto simp: updateTask_def split: option.splits)

text \<open>
  C1 does not hold of the code. The archived task \<open>filed_task\<close> satisfies both
  equivalences. An update that sets \<open>isArchived\<close> to false and saves it succeeds and
  leaves a task that is not archived and still has its \<open>archivedAt\<close>: the save hook sets
  \<open>archivedAt\<close> of an archived task and has no branch that clears it, where it has both
  branches for \<open>completedAt\<close> (a stray \<open>completedAt\<close> of a task in progress is cleared
  by the same save) and where \<open>unarchive\<close> clears \<open>archivedAt\<close> itself.
\<close>

theorem save_keeps_archivedAt:
  "isArchived filed_task \<and> archivedAt filed_task = Some 600
   \<and> status filed_task = InProgress \<and> completedAt filed_task = None
   \<and> save [example_user] 1000 (filed_task\<lparr>isArchived := False\<rparr>)
       = Inr (filed_task\<lparr>isArchived := False\<rparr>)
   \<and> isArchived (filed_task\<lparr>isArchived := False\<rparr>) = False
   \<and> archivedAt (filed_task\<lparr>isArchived := False\<rparr>) = Some 600
   \<and> unarchive [example_user] 1000 filed_task
       = Inr (filed_task\<lparr>isArchived := False, archivedAt := None\<rparr>)
   \<and> save [example_user] 1000 (filed_task\<lparr>completedAt := Some 600\<rparr>) = Inr filed_task"
  by (simp add: save_def validation_errors_def active_user_def User_findById_def
      unarchive_def pre_save_def filed_task_def example_task_def example_user_def)

subsection \<open>Statistics of the handler\<close>

lemma getTaskStats_requester_only:
  "getTaskStats now store uid = getTaskStats now (filter (stats_match uid) store) uid"
proof -
  have "filter (\<lambda>t. stats_match uid t \<and> Q t) (filter (stats_match uid) store)
      = filter (\<lambda>t. stats_match uid t \<and> Q t) store" for Q
    by (induction store) auto
  then show ?thesis
    by (simp add: getTaskStats_def Task_countDocuments_def)
qed

text \<open>
  C3 does not hold of the code. The handler counts the requester's tasks only, but its
  aggregation and its count have no condition on \<open>isArchived\<close>: for a store holding one
  archived, pending, overdue task of the requester it answers total 1, pending 1 and
  overdue 1, where \<open>Task.getTaskStats\<close> of the model, which matches \<open>isArchived: false\<close>,
  finds nothing to count.
\<close>

theorem stats_count_archived_tasks:
  "isArchived archived_task \<and> createdBy archived_task = ''u1''
   \<and> getTaskStats 1000 [archived_task] ''u1'' ''total'' = Some 1
   \<and> getTaskStats 1000 [archived_task] ''u1'' ''pending'' = Some 1
   \<and> getTaskStats 1000 [archived_task] ''u1'' ''overdue'' = Some 1
   \<and> getTaskStats 1000 [archived_task] ''u2'' ''total'' = Some 0
   \<and> Task_getTaskStats exact 1000 [archived_task] (Some ''u1'') = None"
  by (simp add: getTaskStats_def status_groups_def stats_match_def add_stat_def
      Task_countDocuments_def archived_task_def example_task_def Task_getTaskStats_def
      matchStage_def group_stage_def)

text \<open>
  C4 does not hold of the code. The handler counts as overdue the tasks whose status is
  pending or in-progress: an on-hold task of the requester whose due date has passed is
  overdue by the virtual \<open>isOverdue\<close> and is found by \<open>findOverdueTasks\<close>, and the
  handler answers overdue 0.
\<close>

theorem overdue_excludes_on_hold:
  "status on_hold_task = OnHold \<and> dueDate on_hold_task = Some 500
   \<and> createdBy on_hold_task = ''u1''
   \<and> isOverdue 1000 on_hold_task
   \<and> findOverdueTasks 1000 [on_hold_task] = [on_hold_task]
   \<and> getTaskStats 1000 [on_hold_task] ''u1'' ''total'' = Some 1
   \<and> getTaskStats 1000 [on_hold_task] ''u1'' ''overdue'' = Some 0"
  by (simp add: getTaskStats_def status_groups_def stats_match_def add_stat_def
      Task_countDocuments_def on_hold_task_def example_task_def isOverdue_def
      findOverdueTasks_def Task_find_def)

subsection \<open>Rates of the model's statistics\<close>

text \<open>
  C5, as the claim states it, fails: a statistics query that matches no task has a total
  of zero and returns null, not statistics whose completion rate is 0.
\<close>

theorem empty_stats_counterexample:
  "length (filter (matchStage (Some ''u1'')) []) = 0
   \<and> Task_getTaskStats binary64 1000 [] (Some ''u1'') = None
   \<and> map_option completionRate (Task_getTaskStats binary64 1000 [] (Some ''u1'')) \<noteq> Some 0"
  by (simp add: Task_getTaskStats_def group_stage_def)

text \<open>
  C5, amended. A statistics query returns null when no task matches and statistics
  otherwise, and never an error. The statistics it returns have a positive total, their
  completion rate is the quotient of completed and total in percent rounded to two places,
  and their efficiency is 0 when the total of estimated hours is 0 and the quotient of
  actual and estimated hours in percent rounded to two places otherwise. The projection
  maps a total of zero to the rate 0, but no group with a total of zero reaches it.
\<close>

theorem stats_rates:
  "(filter (matchStage userId) store = [] \<longrightarrow> Task_getTaskStats rnd now store userId = None)
   \<and> (filter (matchStage userId) store \<noteq> []
        \<longrightarrow> (\<exists>s. Task_getTaskStats rnd now store userId = Some s))
   \<and> (\<forall>s. Task_getTaskStats rnd now store userId = Some s \<longrightarrow>
        totalTasks s = length (filter (matchStage userId) store) \<and> 0 < totalTasks s
        \<and> completedTasks s
            = length (filter (\<lambda>t. matchStage userId t \<and> status t = Completed) store)
        \<and> completionRate s =
            mongo_round rnd (rnd (rnd (of_nat (completedTasks s) / of_nat (totalTasks s)) * 100)) 2
        \<and> efficiency s =
            (if totalEstimatedHours s = 0 then 0
             else mongo_round rnd
                    (rnd (rnd (totalActualHours s / totalEstimatedHours s) * 100)) 2))
   \<and> (\<forall>g. g_totalTasks g = 0 \<longrightarrow> completionRate (project_stage rnd g) = 0)"
proof -
  let ?docs = "filter (matchStage userId) store"
  have none: "Task_getTaskStats rnd now store userId = None" if "?docs = []"
    using that by (simp add: Task_getTaskStats_def group_stage_def)
  have some: "Task_getTaskStats rnd now store userId
      = Some (project_stage rnd (hd (group_stage rnd now ?docs)))" if "?docs \<noteq> []"
    using that by (simp add: Task_getTaskStats_def group_stage_def)
  have fields: "totalTasks s = length ?docs \<and> 0 < totalTasks s
        \<and> completedTasks s
            = length (filter (\<lambda>t. matchStage userId t \<and> status t = Completed) store)
        \<and> completionRate s =
            mongo_round rnd (rnd (rnd (of_nat (completedTasks s) / of_nat (totalTasks s)) * 100)) 2
        \<and> efficiency s =
            (if totalEstimatedHours s = 0 then 0
             else mongo_round rnd
                    (rnd (rnd (totalActualHours s / totalEstimatedHours s) * 100)) 2)"
    if s: "Task_getTaskStats rnd now store userId = Some s" for s
  proof -
    from s none have ne: "?docs \<noteq> []" by auto
    with s some have "s = project_stage rnd (hd (group_stage rnd now ?docs))" by simp
    with ne show ?thesis
      by (simp add: group_stage_def project_stage_def conj_commute)
  qed
  have guard: "completionRate (project_stage rnd g) = 0" if "g_totalTasks g = 0" for g
    using that by (simp add: project_stage_def)
  from none some fields guard show ?thesis
    by blast
qed

theorem stats_rates_witness:
  "filter (matchStage (Some ''u1'')) [example_task, example_task\<lparr>status := Completed\<rparr>] \<noteq> []
   \<and> map_option totalTasks
        (Task_getTaskStats exact 1000 [example_task, example_task\<lparr>status := Completed\<rparr>]
           (Some ''u1'')) = Some 2
   \<and> map_option completionRate
        (Task_getTaskStats exact 1000 [example_task, example_task\<lparr>status := Completed\<rparr>]
           (Some ''u1'')) = Some 50
   \<and> map_option efficiency
        (Task_getTaskStats exact 1000 [example_task, example_task\<lparr>status := Completed\<rparr>]
           (Some ''u1'')) = Some 50
   \<and> Task_getTaskStats exact 1000 [archived_task] (Some ''u1'') = None"
proof -
  have r: "round_half_even 5000 = 5000"
    by (simp add: round_half_even_def)
  from stats_rates [where rnd = exact and now = 1000 and userId = "Some ''u1''"
      and store = "[example_task, example_task\<lparr>status := Completed\<rparr>]"]
    stats_rates [where rnd = exact and now = 1000 and userId = "Some ''u1''"
      and store = "[archived_task]"]
  show ?thesis
    by (simp add: Task_getTaskStats_def group_stage_def project_stage_def matchStage_def
        example_task_def archived_task_def exact_def mongo_round_def r)
qed

subsection \<open>Logged hours\<close>

lemma foldl_hours:
  "foldl (\<lambda>total log. total + duration log / 60) (a / 60) logs
     = foldl (\<lambda>total log. total + duration log) a logs / 60"
proof (induction logs arbitrary: a)
  case Nil
  show ?case by simp
next
  case (Cons l logs)
  have e: "a / 60 + duration l / 60 = (a + duration l) / 60"
    by (simp add: add_divide_distrib)
  show ?case
    unfolding foldl_Cons e by (rule Cons)
qed

text \<open>
  C10, as the claim states it, fails in the arithmetic of the code. On a task with no log,
  \<open>addTimeLog\<close> of a log of 1 minute and then of a log of 5 minutes leaves
  \<open>actualHours\<close> at the binary64 sum of 1/60 and 5/60, which is 0.09999999999999999,
  while \<open>timeSpent\<close> is 6 and \<open>timeSpent / 60\<close> is 0.1.
\<close>

theorem addTimeLog_binary64_counterexample:
  "addTimeLog binary64 [example_user] 1000 (example_log 1) example_task
     = Inr (example_task\<lparr>timeLogs := [example_log 1],
              actualHours := 4803839602528529 / 288230376151711744\<rparr>)
   \<and> addTimeLog binary64 [example_user] 2000 (example_log 5)
       (example_task\<lparr>timeLogs := [example_log 1],
          actualHours := 4803839602528529 / 288230376151711744\<rparr>)
     = Inr (example_task\<lparr>timeLogs := [example_log 1, example_log 5],
              actualHours := 7205759403792793 / 72057594037927936\<rparr>)
   \<and> timeSpent binary64 (example_task\<lparr>timeLogs := [example_log 1, example_log 5],
              actualHours := 7205759403792793 / 72057594037927936\<rparr>) = 6
   \<and> binary64 (6 / 60) = 3602879701896397 / 36028797018963968
   \<and> (7205759403792793 / 72057594037927936 :: rat) \<noteq> binary64 (6 / 60)"
  by code_simp

text \<open>
  C10, amended. After every \<open>addTimeLog\<close> call that saves, the new log is the last of
  \<open>timeLogs\<close> and \<open>actualHours\<close> is the sum, from the first log to the last, of the
  quotients duration / 60, each quotient and each partial sum rounded by the arithmetic.
  In exact arithmetic that sum is \<open>timeSpent / 60\<close>.
\<close>

theorem addTimeLog_hours:
  assumes "addTimeLog rnd users now timeLogData t = Inr t'"
  shows "timeLogs t' = timeLogs t @ [timeLogData]
    \<and> actualHours t'
        = foldl (\<lambda>total log. rnd (total + rnd (duration log / 60))) 0 (timeLogs t')
    \<and> (rnd = exact \<longrightarrow> actualHours t' = timeSpent exact t' / 60)"
proof -
  from assms have t': "t' = pre_save now (t\<lparr>timeLogs := timeLogs t @ [timeLogData],
      actualHours := foldl (\<lambda>total log. rnd (total + rnd (duration log / 60))) 0
                       (timeLogs t @ [timeLogData])\<rparr>)"
    by (auto simp: addTimeLog_def save_def Let_def split: list.splits)
  have 1: "timeLogs t' = timeLogs t @ [timeLogData]"
    unfolding t' by (simp add: pre_save_def Let_def)
  have 2: "actualHours t'
      = foldl (\<lambda>total log. rnd (total + rnd (duration log / 60))) 0 (timeLogs t')"
    unfolding t' by (simp add: pre_save_def Let_def)
  have 3: "actualHours t' = timeSpent exact t' / 60" if "rnd = exact"
    using foldl_hours [of 0 "timeLogs t'"] unfolding 2 that timeSpent_def
    by (simp add: exact_def)
  from 1 2 3 show ?thesis by blast
qed

theorem addTimeLog_hours_witness:
  "addTimeLog exact [example_user] 1000 (example_log 5)
       (example_task\<lparr>timeLogs := [example_log 1]\<rparr>)
     = Inr (example_task\<lparr>timeLogs := [example_log 1, example_log 5], actualHours := 1 / 10\<rparr>)
   \<and> timeSpent exact
        (example_task\<lparr>timeLogs := [example_log 1, example_log 5], actualHours := 1 / 10\<rparr>) / 60
       = 1 / 10"
proof -
  have a: "addTimeLog exact [example_user] 1000 (example_log 5)
       (example_task\<lparr>timeLogs := [example_log 1]\<rparr>)
     = Inr (example_task\<lparr>timeLogs := [example_log 1, example_log 5], actualHours := 1 / 10\<rparr>)"
    by (simp add: addTimeLog_def save_def validation_errors_def active_user_def
        User_findById_def pre_save_def example_task_def example_user_def example_log_def
        exact_def)
  from addTimeLog_hours [OF a] a show ?thesis
    by simp
qed

end
